theory Spec2Isabelle
  imports Complex_Main
begin

section \<open>Numbers, strings and dictionaries\<close>

text \<open>
  The program is a single script, \<^verbatim>\<open>app.py\<close>. Every number it handles is a Python
  float read from a form field declared with \<^verbatim>\<open>min_value=0.0\<close>. A finite float is a
  rational number, so the inputs are modelled as \<^typ>\<open>rat\<close>. The arithmetic of the script
  is written twice: as exact arithmetic on \<^typ>\<open>rat\<close>, without the rounding of each
  floating-point operation, and, for the score, with each operation rounded to a double
  (section \<open>Double precision\<close>). A missing value (\<^verbatim>\<open>None\<close> in the dictionary,
  \<^verbatim>\<open>NaN\<close> in the data frame) is \<^term>\<open>None\<close>.

  Strings are byte lists in UTF-8: the accented letters of the Portuguese literals are
  written as their two bytes, the bullet as its three bytes.
\<close>

definition a_acute :: string where
  "a_acute = [CHR 0xC3, CHR 0xA1]"

definition a_tilde :: string where
  "a_tilde = [CHR 0xC3, CHR 0xA3]"

definition c_cedilla :: string where
  "c_cedilla = [CHR 0xC3, CHR 0xA7]"

definition e_acute :: string where
  "e_acute = [CHR 0xC3, CHR 0xA9]"

definition e_circumflex :: string where
  "e_circumflex = [CHR 0xC3, CHR 0xAA]"

definition i_acute :: string where
  "i_acute = [CHR 0xC3, CHR 0xAD]"

definition o_acute :: string where
  "o_acute = [CHR 0xC3, CHR 0xB3]"

definition bullet :: string where
  "bullet = [CHR 0xE2, CHR 0x80, CHR 0xA2]"

definition newline :: string where
  "newline = [CHR 0x0A]"

definition Margem_Bruta :: string where
  "Margem_Bruta = ''Margem Bruta''"

definition Margem_EBITDA :: string where
  "Margem_EBITDA = ''Margem EBITDA''"

definition Margem_Liquida :: string where
  "Margem_Liquida = ''Margem L'' @ i_acute @ ''quida''"

definition ROE :: string where
  "ROE = ''ROE''"

definition ROA :: string where
  "ROA = ''ROA''"

definition Divida_PL :: string where
  "Divida_PL = ''D'' @ i_acute @ ''vida/PL''"

definition Liquidez_Corrente :: string where
  "Liquidez_Corrente = ''Liquidez Corrente''"

text \<open>
  A Python dictionary keeps its keys in insertion order, and the script iterates over the
  rows built from it, so a dictionary is an association list. \<^verbatim>\<open>d[k] = v\<close> replaces the
  value of a key that is present and appends a new key at the end; \<^verbatim>\<open>d[k]\<close> raises
  \<^verbatim>\<open>KeyError\<close> on a key that is absent. The other exception of the script is the
  \<^verbatim>\<open>TypeError\<close> of a number format applied to \<^verbatim>\<open>None\<close>.
\<close>

datatype error = KeyError string | TypeError

type_synonym 'v dict = "(string \<times> 'v) list"

fun dict_set :: "'v dict \<Rightarrow> string \<Rightarrow> 'v \<Rightarrow> 'v dict" where
  "dict_set [] k v = [(k, v)]"
| "dict_set ((k', v') # d) k v =
     (if k' = k then (k', v) # d else (k', v') # dict_set d k v)"

fun getitem :: "'v dict \<Rightarrow> string \<Rightarrow> error + 'v" where
  "getitem [] k = Inl (KeyError k)"
| "getitem ((k', v) # d) k = (if k' = k then Inr v else getitem d k)"

text \<open>The truth value of a float in a condition: anything but zero.\<close>

definition truthy :: "rat \<Rightarrow> bool" where
  "truthy x = (x \<noteq> 0)"

section \<open>The form\<close>

text \<open>
  The ten numeric fields of \<^verbatim>\<open>financial_form\<close>, under the names of the script's
  variables. The form rejects a negative entry (\<^verbatim>\<open>min_value=0.0\<close>); \<open>nonneg\<close> states
  what it lets through.
\<close>

record RawFinancials =
  receita :: rat
  lucro_bruto :: rat
  ebitda :: rat
  lucro_liquido :: rat
  ativo_total :: rat
  passivo_total :: rat
  patrimonio_liquido :: rat
  divida_liquida :: rat
  ativo_circ :: rat
  passivo_circ :: rat

definition nonneg :: "RawFinancials \<Rightarrow> bool" where
  "nonneg f =
     (0 \<le> receita f \<and> 0 \<le> lucro_bruto f \<and> 0 \<le> ebitda f \<and> 0 \<le> lucro_liquido f \<and>
      0 \<le> ativo_total f \<and> 0 \<le> passivo_total f \<and> 0 \<le> patrimonio_liquido f \<and>
      0 \<le> divida_liquida f \<and> 0 \<le> ativo_circ f \<and> 0 \<le> passivo_circ f)"

section \<open>The indicators\<close>

text \<open>Lines 50 to 57: seven assignments into an empty dictionary, in this order.\<close>

definition kpis :: "RawFinancials \<Rightarrow> rat option dict" where
  "kpis f =
     (let d = [];
          d = dict_set d Margem_Bruta
                (if truthy (receita f) then Some (lucro_bruto f / receita f) else None);
          d = dict_set d Margem_EBITDA
                (if truthy (receita f) then Some (ebitda f / receita f) else None);
          d = dict_set d Margem_Liquida
                (if truthy (receita f) then Some (lucro_liquido f / receita f) else None);
          d = dict_set d ROE
                (if truthy (patrimonio_liquido f)
                 then Some (lucro_liquido f / patrimonio_liquido f) else None);
          d = dict_set d ROA
                (if truthy (ativo_total f) then Some (lucro_liquido f / ativo_total f) else None);
          d = dict_set d Divida_PL
                (if truthy (patrimonio_liquido f)
                 then Some (divida_liquida f / patrimonio_liquido f) else None);
          d = dict_set d Liquidez_Corrente
                (if truthy (ativo_circ f) \<and> truthy (passivo_circ f)
                 then Some (ativo_circ f / passivo_circ f) else None)
      in d)"

section \<open>The benchmarks and the data frame\<close>

text \<open>Lines 60 to 68.\<close>

definition benchmarks :: "rat dict" where
  "benchmarks =
     [(Margem_Bruta, 2/5),
      (Margem_EBITDA, 1/5),
      (Margem_Liquida, 1/10),
      (ROE, 3/20),
      (ROA, 7/100),
      (Divida_PL, 1),
      (Liquidez_Corrente, 3/2)]"

text \<open>
  Lines 71 to 74. The frame has one row for each key of the dictionary, in its order,
  and four columns. A cell is a float or \<^verbatim>\<open>NaN\<close>; column arithmetic gives \<^verbatim>\<open>NaN\<close>
  wherever an operand is \<^verbatim>\<open>None\<close> or \<^verbatim>\<open>NaN\<close>. \<^verbatim>\<open>Index.map\<close> with a dictionary
  gives \<^verbatim>\<open>NaN\<close> for a label that is not a key.
\<close>

record row =
  Valor :: "rat option"
  Benchmark :: "rat option"
  Desvio :: "rat option"
  Valor_pct :: "rat option"

type_synonym dataframe = "(string \<times> row) list"

definition index_map :: "rat dict \<Rightarrow> string \<Rightarrow> rat option" where
  "index_map m i = (case getitem m i of Inl e \<Rightarrow> None | Inr b \<Rightarrow> Some b)"

definition col_sub :: "rat option \<Rightarrow> rat option \<Rightarrow> rat option" where
  "col_sub a b =
     (case a of None \<Rightarrow> None | Some x \<Rightarrow> (case b of None \<Rightarrow> None | Some y \<Rightarrow> Some (x - y)))"

definition col_mul :: "rat option \<Rightarrow> rat \<Rightarrow> rat option" where
  "col_mul a c = (case a of None \<Rightarrow> None | Some x \<Rightarrow> Some (x * c))"

text \<open>
  Division of columns. A zero divisor would give an infinity or \<^verbatim>\<open>NaN\<close> in the frame;
  the model has no infinity and answers \<^term>\<open>None\<close> there. The divisor is always the
  benchmark column, which holds no zero (\<open>benchmarks_nonzero\<close> below), so that branch
  is never taken on a frame the script builds.
\<close>

definition col_div :: "rat option \<Rightarrow> rat option \<Rightarrow> rat option" where
  "col_div a b =
     (case a of None \<Rightarrow> None | Some x \<Rightarrow>
       (case b of None \<Rightarrow> None | Some y \<Rightarrow> if y = 0 then None else Some (x / y)))"

definition make_row :: "rat dict \<Rightarrow> string \<times> rat option \<Rightarrow> string \<times> row" where
  "make_row bm kv =
     (case kv of (i, valor) \<Rightarrow>
        (let benchmark = index_map bm i;
             desvio = col_mul (col_div (col_sub valor benchmark) benchmark) 100;
             valor_pct = col_mul valor 100
         in (i, \<lparr>Valor = valor, Benchmark = benchmark, Desvio = desvio,
                 Valor_pct = valor_pct\<rparr>)))"

definition df :: "rat option dict \<Rightarrow> dataframe" where
  "df d = map (make_row benchmarks) d"

text \<open>
  Lines 78 to 83, the table on the page. As soon as one indicator is a number the column
  \<^verbatim>\<open>Valor\<close> is a column of floats, in which a missing indicator is \<^verbatim>\<open>NaN\<close>, and the
  format \<^verbatim>\<open>{:.2f}\<close> prints every cell. When every indicator is \<^verbatim>\<open>None\<close> the column
  holds \<^verbatim>\<open>None\<close> itself, and the format applied to it raises \<^verbatim>\<open>TypeError\<close>. The other
  three columns hold floats or \<^verbatim>\<open>NaN\<close> in both cases. What the table looks like is not
  modelled, only whether the call returns.
\<close>

definition st_dataframe :: "dataframe \<Rightarrow> error + unit" where
  "st_dataframe frame =
     (if frame \<noteq> [] \<and> list_all (\<lambda>(i, r). Valor r = None) frame then Inl TypeError
      else Inr ())"

section \<open>The health score\<close>

text \<open>
  Lines 109 to 112. The third parameter is in the signature and every call passes it.
  (\<open>normalize\<close> is a constant of the library, hence the suffix.)
\<close>

definition normalize_kpi :: "rat option \<Rightarrow> rat \<Rightarrow> rat \<Rightarrow> rat" where
  "normalize_kpi v ideal max_val =
     (case v of
        None \<Rightarrow> 0
      | Some x \<Rightarrow> if ideal \<noteq> 0 then min (x / ideal) 1 else 0)"

text \<open>
  Lines 114 to 120. The five subscripts are evaluated from left to right, so the first
  absent key is the one reported.
\<close>

definition score :: "rat option dict \<Rightarrow> error + rat" where
  "score d =
     (case getitem d Margem_EBITDA of Inl e \<Rightarrow> Inl e | Inr m_ebitda \<Rightarrow>
     (case getitem d Margem_Liquida of Inl e \<Rightarrow> Inl e | Inr m_liquida \<Rightarrow>
     (case getitem d ROE of Inl e \<Rightarrow> Inl e | Inr roe \<Rightarrow>
     (case getitem d Divida_PL of Inl e \<Rightarrow> Inl e | Inr divida_pl \<Rightarrow>
     (case getitem d Liquidez_Corrente of Inl e \<Rightarrow> Inl e | Inr liquidez \<Rightarrow>
        Inr ((1/4 * normalize_kpi m_ebitda (1/5) (2/5) +
              1/5 * normalize_kpi m_liquida (1/10) (1/5) +
              1/4 * normalize_kpi roe (3/20) (3/10) +
              1/5 * (1 - normalize_kpi divida_pl 1 3) +
              1/10 * normalize_kpi liquidez (3/2) 3) * 100))))))"

section \<open>The diagnosis\<close>

text \<open>Lines 135 to 146: the two texts of each of the four branches.\<close>

definition diagnosis_excelente :: string where
  "diagnosis_excelente =
     ''Excelente condi'' @ c_cedilla @ a_tilde @ ''o financeira. Estrutura de capital s'' @
     o_acute @ ''lida e margens saud'' @ a_acute @ ''veis.''"

definition recommendation_excelente :: string where
  "recommendation_excelente =
     ''A empresa apresenta perfil atrativo para investidores institucionais e estrat'' @
     e_acute @ ''gicos.''"

definition diagnosis_boa :: string where
  "diagnosis_boa =
     ''Boa condi'' @ c_cedilla @ a_tilde @ ''o financeira, com pontos de aten'' @
     c_cedilla @ a_tilde @ ''o em margens ou alavancagem.''"

definition recommendation_boa :: string where
  "recommendation_boa =
     ''Pode ser considerada para investimento, desde que haja monitoramento de efici'' @
     e_circumflex @ ''ncia operacional.''"

definition diagnosis_moderada :: string where
  "diagnosis_moderada =
     ''Situa'' @ c_cedilla @ a_tilde @
     ''o moderada, com fragilidades em rentabilidade ou endividamento.''"

definition recommendation_moderada :: string where
  "recommendation_moderada =
     ''Investimento requer an'' @ a_acute @ ''lise aprofundada e poss'' @ i_acute @
     ''vel reestrutura'' @ c_cedilla @ a_tilde @ ''o de capital.''"

definition diagnosis_fraca :: string where
  "diagnosis_fraca =
     ''Condi'' @ c_cedilla @ a_tilde @
     ''o financeira fraca. Elevado risco operacional e financeiro.''"

definition recommendation_fraca :: string where
  "recommendation_fraca =
     ''N'' @ a_tilde @ ''o recomendada para investimento no est'' @ a_acute @ ''gio atual.''"

text \<open>The pair (\<^verbatim>\<open>diagnosis\<close>, \<^verbatim>\<open>recommendation\<close>) that the chain assigns.\<close>

definition diagnosis :: "rat \<Rightarrow> string \<times> string" where
  "diagnosis s =
     (if s \<ge> 80 then (diagnosis_excelente, recommendation_excelente)
      else if s \<ge> 60 then (diagnosis_boa, recommendation_boa)
      else if s \<ge> 40 then (diagnosis_moderada, recommendation_moderada)
      else (diagnosis_fraca, recommendation_fraca))"

section \<open>The comparisons\<close>

text \<open>
  The format \<^verbatim>\<open>{:.1f}\<close>: the sign, the integer part, a point and one digit, the value
  rounded to the nearest tenth, a tie to the even one.
\<close>

definition round_half_even :: "rat \<Rightarrow> int" where
  "round_half_even x =
     (let n = \<lfloor>x\<rfloor>; r = x - of_int n
      in if r < 1/2 then n else if 1/2 < r then n + 1 else if even n then n else n + 1)"

definition digit :: "nat \<Rightarrow> char" where
  "digit n = ''0123456789'' ! n"

fun str_nat :: "nat \<Rightarrow> string" where
  "str_nat n = (if n < 10 then [digit n] else str_nat (n div 10) @ [digit (n mod 10)])"

definition format_1f :: "rat \<Rightarrow> string" where
  "format_1f x =
     (let t = nat (round_half_even (\<bar>x\<bar> * 10))
      in (if x < 0 then ''-'' else []) @ str_nat (t div 10) @ ''.'' @ [digit (t mod 10)])"

text \<open>
  Lines 149 to 155. \<open>loop_body\<close> is one pass of the \<^verbatim>\<open>for\<close> loop over a row, on the
  list collected so far; \<^verbatim>\<open>pd.notnull\<close> is false exactly on \<^verbatim>\<open>NaN\<close>.
\<close>

definition loop_body :: "string list \<Rightarrow> string \<times> row \<Rightarrow> string list" where
  "loop_body acc ir =
     (case ir of (i, r) \<Rightarrow>
        (case Desvio r of
           None \<Rightarrow> acc
         | Some d \<Rightarrow>
             if d > 10 then acc @ [i @ '' acima do benchmark (+'' @ format_1f d @ ''%)'']
             else if d < - 10 then acc @ [i @ '' abaixo do benchmark ('' @ format_1f d @ ''%)'']
             else acc))"

fun comparisons_loop :: "dataframe \<Rightarrow> string list \<Rightarrow> string list" where
  "comparisons_loop [] acc = acc"
| "comparisons_loop (ir # rest) acc = comparisons_loop rest (loop_body acc ir)"

definition comparisons :: "dataframe \<Rightarrow> string list" where
  "comparisons frame = comparisons_loop frame []"

text \<open>Line 157. \<open>join\<close> is \<^verbatim>\<open>str.join\<close>.\<close>

definition fallback_message :: string where
  "fallback_message =
     ''Os indicadores est'' @ a_tilde @ ''o pr'' @ o_acute @ ''ximos das m'' @ e_acute @
     ''dias de mercado.''"

fun join :: "string \<Rightarrow> string list \<Rightarrow> string" where
  "join sep [] = []"
| "join sep [x] = x"
| "join sep (x # y # ys) = x @ sep @ join sep (y # ys)"

definition insights :: "string list \<Rightarrow> string" where
  "insights cs =
     (if cs \<noteq> [] then bullet @ '' '' @ join (newline @ bullet @ '' '') cs
      else fallback_message)"

section \<open>The whole computation\<close>

text \<open>
  What the script computes between the submission of the form and the report, in the
  order of the script: the indicators, the data frame, the table on the page, the score,
  the diagnosis, the insights. An exception in the block is caught at line 247 and only
  its message is shown: the result is then \<open>Inl\<close>, and nothing after the line that raised
  is computed. The chart of lines 85 to 106 and the report of lines 159 to 245 are drawn
  by libraries and are taken to return.
\<close>

record report =
  out_kpis :: "rat option dict"
  out_df :: dataframe
  out_score :: rat
  out_diagnosis :: string
  out_recommendation :: string
  out_insights :: string

definition analysis :: "RawFinancials \<Rightarrow> error + report" where
  "analysis f =
     (let d = kpis f; frame = df d
      in case st_dataframe frame of
           Inl e \<Rightarrow> Inl e
         | Inr u \<Rightarrow>
            (case score d of
               Inl e \<Rightarrow> Inl e
             | Inr s \<Rightarrow>
                 Inr \<lparr>out_kpis = d, out_df = frame, out_score = s,
                      out_diagnosis = fst (diagnosis s),
                      out_recommendation = snd (diagnosis s),
                      out_insights = insights (comparisons frame)\<rparr>))"

section \<open>Three inputs\<close>

text \<open>
  The worked example of the specification (it leaves \<open>passivo_total\<close> open; 1200 here),
  the form submitted as it opens, every field zero, and a company of which only the
  income statement is entered, its three margins equal to their benchmarks.
\<close>

definition example_input :: RawFinancials where
  "example_input =
     \<lparr>receita = 1000, lucro_bruto = 450, ebitda = 250, lucro_liquido = 120,
      ativo_total = 2000, passivo_total = 1200, patrimonio_liquido = 800,
      divida_liquida = 700, ativo_circ = 500, passivo_circ = 300\<rparr>"

definition zero_input :: RawFinancials where
  "zero_input =
     \<lparr>receita = 0, lucro_bruto = 0, ebitda = 0, lucro_liquido = 0,
      ativo_total = 0, passivo_total = 0, patrimonio_liquido = 0,
      divida_liquida = 0, ativo_circ = 0, passivo_circ = 0\<rparr>"

definition at_benchmark_input :: RawFinancials where
  "at_benchmark_input =
     \<lparr>receita = 1000, lucro_bruto = 400, ebitda = 200, lucro_liquido = 100,
      ativo_total = 0, passivo_total = 0, patrimonio_liquido = 0,
      divida_liquida = 0, ativo_circ = 0, passivo_circ = 0\<rparr>"

section \<open>Double precision\<close>

text \<open>
  The script computes in Python floats, IEEE 754 doubles, and each operation rounds its
  exact result to the nearest double, a tie going to the even one. For most of what is
  proved below that is a matter of the last digit. It decides whether a larger indicator
  gives a strictly larger score, so the score is written a second time here with every
  operation rounded.

  A positive double is a multiple of a power of two, the power chosen so that the
  multiple has 53 bits, and never below \<open>2\<^sup>-\<^sup>1\<^sup>0\<^sup>7\<^sup>4\<close>. \<open>ilog2 x\<close> is the exponent of the
  largest power of two that is at most \<open>x\<close>, found by halving or doubling. Overflow is
  not modelled: where the machine answers infinity the number stays finite here. The
  score passes every quotient through \<^verbatim>\<open>min(..., 1.0)\<close>, which gives 1.0 for both.
\<close>

function log2_ge1 :: "rat \<Rightarrow> nat" where
  "log2_ge1 x = (if x < 2 then 0 else Suc (log2_ge1 (x / 2)))"
  by pat_completeness auto
termination
proof (relation "measure (\<lambda>x. nat \<lfloor>x\<rfloor>)")
  show "wf (measure (\<lambda>x::rat. nat \<lfloor>x\<rfloor>))" by simp
next
  fix x :: rat
  assume "\<not> x < 2"
  then have "x / 2 \<le> x - 1" by simp
  then have "\<lfloor>x / 2\<rfloor> \<le> \<lfloor>x - 1\<rfloor>" by (rule floor_mono)
  moreover have "1 \<le> \<lfloor>x\<rfloor>" using \<open>\<not> x < 2\<close> by (simp add: le_floor_iff)
  ultimately show "(x / 2, x) \<in> measure (\<lambda>x. nat \<lfloor>x\<rfloor>)" by simp
qed

function log2_lt1 :: "rat \<Rightarrow> nat" where
  "log2_lt1 x = (if x \<le> 0 \<or> 1 \<le> x then 0 else Suc (log2_lt1 (2 * x)))"
  by pat_completeness auto
termination
proof (relation "measure (\<lambda>x. nat \<lceil>1 / x\<rceil>)")
  show "wf (measure (\<lambda>x::rat. nat \<lceil>1 / x\<rceil>))" by simp
next
  fix x :: rat
  assume a: "\<not> (x \<le> 0 \<or> 1 \<le> x)"
  then have x: "0 < x" "x < 1" by simp_all
  then have t: "1 < 1 / x" by simp
  then have c: "2 \<le> \<lceil>1 / x\<rceil>" by (simp add: le_ceiling_iff)
  have "1 / (2 * x) = (1 / x) / 2" by simp
  also have "\<dots> \<le> of_int \<lceil>1 / x\<rceil> / 2" by (simp add: divide_right_mono)
  also have "\<dots> \<le> of_int (\<lceil>1 / x\<rceil> - 1)" using c by simp
  finally have "1 / (2 * x) \<le> of_int (\<lceil>1 / x\<rceil> - 1)" .
  then have "\<lceil>1 / (2 * x)\<rceil> \<le> \<lceil>1 / x\<rceil> - 1" by (rule ceiling_le)
  with c x show "(2 * x, x) \<in> measure (\<lambda>x. nat \<lceil>1 / x\<rceil>)" by simp
qed

definition ilog2 :: "rat \<Rightarrow> int" where
  "ilog2 x = (if 1 \<le> x then int (log2_ge1 x) else - int (log2_lt1 x))"

definition round_pos :: "rat \<Rightarrow> rat" where
  "round_pos x =
     (let e = max (ilog2 x - 52) (- 1074)
      in of_int (round_half_even (x / 2 powi e)) * 2 powi e)"

definition round_double :: "rat \<Rightarrow> rat" where
  "round_double x =
     (if x = 0 then 0 else if 0 < x then round_pos x else - round_pos (- x))"

text \<open>
  The four operations of the machine: the exact result, rounded once. A decimal literal
  of the script is the double nearest to it, written \<open>round_double\<close> of the decimal.
  Every division of the script stands behind a test of its divisor, so \<open>fdiv\<close> is never
  applied to a zero divisor below.
\<close>

definition fadd :: "rat \<Rightarrow> rat \<Rightarrow> rat" where
  "fadd a b = round_double (a + b)"

definition fsub :: "rat \<Rightarrow> rat \<Rightarrow> rat" where
  "fsub a b = round_double (a - b)"

definition fmul :: "rat \<Rightarrow> rat \<Rightarrow> rat" where
  "fmul a b = round_double (a * b)"

definition fdiv :: "rat \<Rightarrow> rat \<Rightarrow> rat" where
  "fdiv a b = round_double (a / b)"

text \<open>Lines 50 to 57 again, each quotient rounded.\<close>

definition kpis_float :: "RawFinancials \<Rightarrow> rat option dict" where
  "kpis_float f =
     (let d = [];
          d = dict_set d Margem_Bruta
                (if truthy (receita f) then Some (fdiv (lucro_bruto f) (receita f)) else None);
          d = dict_set d Margem_EBITDA
                (if truthy (receita f) then Some (fdiv (ebitda f) (receita f)) else None);
          d = dict_set d Margem_Liquida
                (if truthy (receita f) then Some (fdiv (lucro_liquido f) (receita f))
                 else None);
          d = dict_set d ROE
                (if truthy (patrimonio_liquido f)
                 then Some (fdiv (lucro_liquido f) (patrimonio_liquido f)) else None);
          d = dict_set d ROA
                (if truthy (ativo_total f) then Some (fdiv (lucro_liquido f) (ativo_total f))
                 else None);
          d = dict_set d Divida_PL
                (if truthy (patrimonio_liquido f)
                 then Some (fdiv (divida_liquida f) (patrimonio_liquido f)) else None);
          d = dict_set d Liquidez_Corrente
                (if truthy (ativo_circ f) \<and> truthy (passivo_circ f)
                 then Some (fdiv (ativo_circ f) (passivo_circ f)) else None)
      in d)"

text \<open>Lines 109 to 112 again.\<close>

definition normalize_float :: "rat option \<Rightarrow> rat \<Rightarrow> rat \<Rightarrow> rat" where
  "normalize_float v ideal max_val =
     (case v of
        None \<Rightarrow> 0
      | Some x \<Rightarrow> if ideal \<noteq> 0 then min (fdiv x ideal) 1 else 0)"

text \<open>
  Lines 114 to 120 again: five products, added from left to right, and the sum times
  100, every operation rounded.
\<close>

definition score_float :: "rat option dict \<Rightarrow> error + rat" where
  "score_float d =
     (case getitem d Margem_EBITDA of Inl e \<Rightarrow> Inl e | Inr m_ebitda \<Rightarrow>
     (case getitem d Margem_Liquida of Inl e \<Rightarrow> Inl e | Inr m_liquida \<Rightarrow>
     (case getitem d ROE of Inl e \<Rightarrow> Inl e | Inr roe \<Rightarrow>
     (case getitem d Divida_PL of Inl e \<Rightarrow> Inl e | Inr divida_pl \<Rightarrow>
     (case getitem d Liquidez_Corrente of Inl e \<Rightarrow> Inl e | Inr liquidez \<Rightarrow>
        Inr (fmul
          (fadd
            (fadd
              (fadd
                (fadd
                  (fmul (round_double (1/4))
                     (normalize_float m_ebitda (round_double (1/5)) (round_double (2/5))))
                  (fmul (round_double (1/5))
                     (normalize_float m_liquida (round_double (1/10)) (round_double (1/5)))))
                (fmul (round_double (1/4))
                   (normalize_float roe (round_double (3/20)) (round_double (3/10)))))
              (fmul (round_double (1/5)) (fsub 1 (normalize_float divida_pl 1 3))))
            (fmul (round_double (1/10))
               (normalize_float liquidez (round_double (3/2)) 3)))
          100))))))"

text \<open>
  An input whose revenue dwarfs its EBITDA: the worked example with revenue
  \<open>10\<^sup>1\<^sup>8\<close>, net income \<open>10\<^sup>1\<^sup>7\<close> and EBITDA 1. Each of the three is a double.
\<close>

definition large_revenue_input :: RawFinancials where
  "large_revenue_input =
     \<lparr>receita = 10 ^ 18, lucro_bruto = 450, ebitda = 1, lucro_liquido = 10 ^ 17,
      ativo_total = 2000, passivo_total = 1200, patrimonio_liquido = 800,
      divida_liquida = 700, ativo_circ = 500, passivo_circ = 300\<rparr>"

text \<open>The sum of lines 114 to 120 as a function of the five normalized values.\<close>

definition weighted_float :: "rat \<Rightarrow> rat \<Rightarrow> rat \<Rightarrow> rat \<Rightarrow> rat \<Rightarrow> rat" where
  "weighted_float a1 a2 a3 a4 a5 =
     fmul
       (fadd
         (fadd
           (fadd
             (fadd (fmul (round_double (1/4)) a1) (fmul (round_double (1/5)) a2))
             (fmul (round_double (1/4)) a3))
           (fmul (round_double (1/5)) (fsub 1 a4)))
         (fmul (round_double (1/10)) a5))
       100"

section \<open>The formula of the specification\<close>

text \<open>
  Following the specification's words: \<open>normalize(v, ideal)\<close> has two arguments, is 0
  when \<open>v\<close> is undefined or \<open>ideal\<close> is 0, and \<open>min(v/ideal, 1.0)\<close> otherwise; the score
  is 100 times the weighted sum, the term of the debt ratio inverted.
\<close>

definition spec_normalize :: "rat option \<Rightarrow> rat \<Rightarrow> rat" where
  "spec_normalize v ideal =
     (case v of None \<Rightarrow> 0 | Some x \<Rightarrow> if ideal = 0 then 0 else min (x / ideal) 1)"

definition spec_score ::
  "rat option \<Rightarrow> rat option \<Rightarrow> rat option \<Rightarrow> rat option \<Rightarrow> rat option \<Rightarrow> rat" where
  "spec_score ebitda_margin net_margin roe debt_to_equity current_ratio =
     100 * (25/100 * spec_normalize ebitda_margin (20/100) +
            20/100 * spec_normalize net_margin (10/100) +
            25/100 * spec_normalize roe (15/100) +
            20/100 * (1 - spec_normalize debt_to_equity 1) +
            10/100 * spec_normalize current_ratio (15/10))"

section \<open>Comparing two results\<close>

text \<open>
  Two computed scores in order. Neither relation holds when a score is not computed, so
  a statement made with them also says that both computations succeed.
\<close>

definition score_le :: "error + rat \<Rightarrow> error + rat \<Rightarrow> bool" where
  "score_le a b =
     (case a of Inl e \<Rightarrow> False | Inr x \<Rightarrow> (case b of Inl e \<Rightarrow> False | Inr y \<Rightarrow> x \<le> y))"

definition score_lt :: "error + rat \<Rightarrow> error + rat \<Rightarrow> bool" where
  "score_lt a b =
     (case a of Inl e \<Rightarrow> False | Inr x \<Rightarrow> (case b of Inl e \<Rightarrow> False | Inr y \<Rightarrow> x < y))"

section \<open>The insight generator of the specification\<close>

text \<open>
  Following the specification's words: a filter, then a map, over the rows in their
  order. A row yields a bullet when its deviation is defined and above 10 (the name, the
  words for above the benchmark, a plus sign and the number to one decimal) or below -10
  (the name, the words for below the benchmark, and the number with its minus sign); it
  yields none otherwise. The words are those of the script.
\<close>

definition crosses :: "row \<Rightarrow> bool" where
  "crosses r = (case Desvio r of None \<Rightarrow> False | Some d \<Rightarrow> 10 < d \<or> d < - 10)"

definition spec_insight :: "string \<times> row \<Rightarrow> string option" where
  "spec_insight ir =
     (case ir of (i, r) \<Rightarrow>
        (case Desvio r of
           None \<Rightarrow> None
         | Some d \<Rightarrow>
             if 10 < d then Some (i @ '' acima do benchmark (+'' @ format_1f d @ ''%)'')
             else if d < - 10
               then Some (i @ '' abaixo do benchmark (-'' @ format_1f (- d) @ ''%)'')
             else None))"

section \<open>Dictionaries\<close>

lemmas letter_defs =
  a_acute_def a_tilde_def c_cedilla_def e_acute_def e_circumflex_def i_acute_def
  o_acute_def bullet_def newline_def

lemmas key_defs =
  Margem_Bruta_def Margem_EBITDA_def Margem_Liquida_def ROE_def ROA_def Divida_PL_def
  Liquidez_Corrente_def

lemma keys_distinct:
  "distinct [Margem_Bruta, Margem_EBITDA, Margem_Liquida, ROE, ROA, Divida_PL,
             Liquidez_Corrente]"
  by (simp add: key_defs letter_defs)

lemma getitem_dict_set:
  "getitem (dict_set d k v) k' = (if k' = k then Inr v else getitem d k')"
  by (induction d) auto

text \<open>The dictionary of indicators, written out.\<close>

lemma kpis_list:
  "kpis f =
     [(Margem_Bruta, if receita f \<noteq> 0 then Some (lucro_bruto f / receita f) else None),
      (Margem_EBITDA, if receita f \<noteq> 0 then Some (ebitda f / receita f) else None),
      (Margem_Liquida, if receita f \<noteq> 0 then Some (lucro_liquido f / receita f) else None),
      (ROE, if patrimonio_liquido f \<noteq> 0
            then Some (lucro_liquido f / patrimonio_liquido f) else None),
      (ROA, if ativo_total f \<noteq> 0 then Some (lucro_liquido f / ativo_total f) else None),
      (Divida_PL, if patrimonio_liquido f \<noteq> 0
                  then Some (divida_liquida f / patrimonio_liquido f) else None),
      (Liquidez_Corrente, if ativo_circ f \<noteq> 0 \<and> passivo_circ f \<noteq> 0
                          then Some (ativo_circ f / passivo_circ f) else None)]"
  using keys_distinct by (simp add: kpis_def truthy_def)

lemma kpis_getitem:
  "getitem (kpis f) Margem_Bruta =
     Inr (if receita f \<noteq> 0 then Some (lucro_bruto f / receita f) else None)"
  "getitem (kpis f) Margem_EBITDA =
     Inr (if receita f \<noteq> 0 then Some (ebitda f / receita f) else None)"
  "getitem (kpis f) Margem_Liquida =
     Inr (if receita f \<noteq> 0 then Some (lucro_liquido f / receita f) else None)"
  "getitem (kpis f) ROE =
     Inr (if patrimonio_liquido f \<noteq> 0
          then Some (lucro_liquido f / patrimonio_liquido f) else None)"
  "getitem (kpis f) ROA =
     Inr (if ativo_total f \<noteq> 0 then Some (lucro_liquido f / ativo_total f) else None)"
  "getitem (kpis f) Divida_PL =
     Inr (if patrimonio_liquido f \<noteq> 0
          then Some (divida_liquida f / patrimonio_liquido f) else None)"
  "getitem (kpis f) Liquidez_Corrente =
     Inr (if ativo_circ f \<noteq> 0 \<and> passivo_circ f \<noteq> 0
          then Some (ativo_circ f / passivo_circ f) else None)"
  using keys_distinct by (simp_all add: kpis_list)

section \<open>The score as a function of five values\<close>

lemma score_values:
  assumes "getitem d Margem_EBITDA = Inr e" and "getitem d Margem_Liquida = Inr n"
    and "getitem d ROE = Inr r" and "getitem d Divida_PL = Inr q"
    and "getitem d Liquidez_Corrente = Inr c"
  shows "score d =
     Inr ((1/4 * normalize_kpi e (1/5) (2/5) + 1/5 * normalize_kpi n (1/10) (1/5) +
           1/4 * normalize_kpi r (3/20) (3/10) + 1/5 * (1 - normalize_kpi q 1 3) +
           1/10 * normalize_kpi c (3/2) 3) * 100)"
  using assms by (simp add: score_def)

lemma score_defined:
  assumes "score d = Inr s"
  obtains e n r q c where "getitem d Margem_EBITDA = Inr e"
    and "getitem d Margem_Liquida = Inr n" and "getitem d ROE = Inr r"
    and "getitem d Divida_PL = Inr q" and "getitem d Liquidez_Corrente = Inr c"
  using assms by (auto simp: score_def split: sum.splits)

lemma normalize_kpi_bounds:
  assumes "\<And>x. v = Some x \<Longrightarrow> 0 \<le> x" and "0 \<le> ideal"
  shows "0 \<le> normalize_kpi v ideal m" and "normalize_kpi v ideal m \<le> 1"
  using assms by (auto simp: normalize_kpi_def split: option.splits)

lemma score_range_values:
  assumes g: "getitem d Margem_EBITDA = Inr e" "getitem d Margem_Liquida = Inr n"
    "getitem d ROE = Inr r" "getitem d Divida_PL = Inr q"
    "getitem d Liquidez_Corrente = Inr c"
    and pos: "\<And>x. e = Some x \<Longrightarrow> 0 \<le> x" "\<And>x. n = Some x \<Longrightarrow> 0 \<le> x"
    "\<And>x. r = Some x \<Longrightarrow> 0 \<le> x" "\<And>x. q = Some x \<Longrightarrow> 0 \<le> x"
    "\<And>x. c = Some x \<Longrightarrow> 0 \<le> x"
  shows "\<exists>s. score d = Inr s \<and> 0 \<le> s \<and> s \<le> 100"
proof -
  define a1 where "a1 = normalize_kpi e (1/5) (2/5)"
  define a2 where "a2 = normalize_kpi n (1/10) (1/5)"
  define a3 where "a3 = normalize_kpi r (3/20) (3/10)"
  define a4 where "a4 = normalize_kpi q 1 3"
  define a5 where "a5 = normalize_kpi c (3/2) 3"
  have b: "0 \<le> a1" "a1 \<le> 1" "0 \<le> a2" "a2 \<le> 1" "0 \<le> a3" "a3 \<le> 1"
    "0 \<le> a4" "a4 \<le> 1" "0 \<le> a5" "a5 \<le> 1"
    unfolding a1_def a2_def a3_def a4_def a5_def
    using pos by (simp_all add: normalize_kpi_bounds)
  have s: "score d = Inr ((1/4 * a1 + 1/5 * a2 + 1/4 * a3 + 1/5 * (1 - a4) + 1/10 * a5) * 100)"
    unfolding a1_def a2_def a3_def a4_def a5_def by (rule score_values [OF g])
  have eq: "(1/4 * a1 + 1/5 * a2 + 1/4 * a3 + 1/5 * (1 - a4) + 1/10 * a5) * 100 =
      25 * a1 + 20 * a2 + 25 * a3 + (20 - 20 * a4) + 10 * a5"
    by (simp add: field_simps)
  have "0 \<le> 25 * a1 + 20 * a2 + 25 * a3 + (20 - 20 * a4) + 10 * a5"
    using b by linarith
  moreover have "25 * a1 + 20 * a2 + 25 * a3 + (20 - 20 * a4) + 10 * a5 \<le> 100"
    using b by linarith
  ultimately show ?thesis
    unfolding s eq by blast
qed

lemma normalize_kpi_spec: "normalize_kpi v ideal m = spec_normalize v ideal"
  by (simp add: normalize_kpi_def spec_normalize_def split: option.splits)

lemma score_example_input: "score (kpis example_input) = Inr (165/2)"
  by (simp add: score_values [OF kpis_getitem(2,3,4,6,7)] normalize_kpi_def
      example_input_def)

section \<open>The score after one assignment\<close>

lemma score_set_ebitda:
  assumes "getitem d Margem_Liquida = Inr n" and "getitem d ROE = Inr r"
    and "getitem d Divida_PL = Inr q" and "getitem d Liquidez_Corrente = Inr c"
  shows "score (dict_set d Margem_EBITDA x) =
     Inr ((1/4 * normalize_kpi x (1/5) (2/5) + 1/5 * normalize_kpi n (1/10) (1/5) +
           1/4 * normalize_kpi r (3/20) (3/10) + 1/5 * (1 - normalize_kpi q 1 3) +
           1/10 * normalize_kpi c (3/2) 3) * 100)"
  using assms keys_distinct by (intro score_values) (auto simp: getitem_dict_set)

lemma score_set_liquida:
  assumes "getitem d Margem_EBITDA = Inr e" and "getitem d ROE = Inr r"
    and "getitem d Divida_PL = Inr q" and "getitem d Liquidez_Corrente = Inr c"
  shows "score (dict_set d Margem_Liquida x) =
     Inr ((1/4 * normalize_kpi e (1/5) (2/5) + 1/5 * normalize_kpi x (1/10) (1/5) +
           1/4 * normalize_kpi r (3/20) (3/10) + 1/5 * (1 - normalize_kpi q 1 3) +
           1/10 * normalize_kpi c (3/2) 3) * 100)"
  using assms keys_distinct by (intro score_values) (auto simp: getitem_dict_set)

lemma score_set_roe:
  assumes "getitem d Margem_EBITDA = Inr e" and "getitem d Margem_Liquida = Inr n"
    and "getitem d Divida_PL = Inr q" and "getitem d Liquidez_Corrente = Inr c"
  shows "score (dict_set d ROE x) =
     Inr ((1/4 * normalize_kpi e (1/5) (2/5) + 1/5 * normalize_kpi n (1/10) (1/5) +
           1/4 * normalize_kpi x (3/20) (3/10) + 1/5 * (1 - normalize_kpi q 1 3) +
           1/10 * normalize_kpi c (3/2) 3) * 100)"
  using assms keys_distinct by (intro score_values) (auto simp: getitem_dict_set)

lemma score_set_divida:
  assumes "getitem d Margem_EBITDA = Inr e" and "getitem d Margem_Liquida = Inr n"
    and "getitem d ROE = Inr r" and "getitem d Liquidez_Corrente = Inr c"
  shows "score (dict_set d Divida_PL x) =
     Inr ((1/4 * normalize_kpi e (1/5) (2/5) + 1/5 * normalize_kpi n (1/10) (1/5) +
           1/4 * normalize_kpi r (3/20) (3/10) + 1/5 * (1 - normalize_kpi x 1 3) +
           1/10 * normalize_kpi c (3/2) 3) * 100)"
  using assms keys_distinct by (intro score_values) (auto simp: getitem_dict_set)

lemma score_set_liquidez:
  assumes "getitem d Margem_EBITDA = Inr e" and "getitem d Margem_Liquida = Inr n"
    and "getitem d ROE = Inr r" and "getitem d Divida_PL = Inr q"
  shows "score (dict_set d Liquidez_Corrente x) =
     Inr ((1/4 * normalize_kpi e (1/5) (2/5) + 1/5 * normalize_kpi n (1/10) (1/5) +
           1/4 * normalize_kpi r (3/20) (3/10) + 1/5 * (1 - normalize_kpi q 1 3) +
           1/10 * normalize_kpi x (3/2) 3) * 100)"
  using assms keys_distinct by (intro score_values) (auto simp: getitem_dict_set)

section \<open>The texts of the diagnosis\<close>

lemma diagnosis_texts_distinct:
  "distinct [diagnosis_excelente, diagnosis_boa, diagnosis_moderada, diagnosis_fraca]"
  by (simp add: diagnosis_excelente_def diagnosis_boa_def diagnosis_moderada_def
      diagnosis_fraca_def)

section \<open>The loop over the rows\<close>

lemma format_1f_negative: "d < 0 \<Longrightarrow> format_1f d = CHR ''-'' # format_1f (- d)"
  by (simp add: format_1f_def Let_def del: str_nat.simps)

lemma loop_body_spec:
  "loop_body acc ir = acc @ (case spec_insight ir of None \<Rightarrow> [] | Some t \<Rightarrow> [t])"
  by (cases ir) (simp add: loop_body_def spec_insight_def format_1f_negative
      split: option.splits)

lemma comparisons_loop_spec:
  "comparisons_loop frame acc = acc @ List.map_filter spec_insight frame"
proof (induction frame arbitrary: acc)
  case Nil
  show ?case by simp
next
  case (Cons ir frame)
  show ?case
    by (simp add: Cons.IH loop_body_spec split: option.splits)
qed

lemma comparisons_spec: "comparisons frame = List.map_filter spec_insight frame"
  by (simp add: comparisons_def comparisons_loop_spec)

lemma map_filter_append:
  "List.map_filter g (xs @ ys) = List.map_filter g xs @ List.map_filter g ys"
  by (simp add: List.map_filter_def)

lemma spec_insight_crosses: "(spec_insight (i, r) \<noteq> None) = crosses r"
  by (simp add: spec_insight_def crosses_def split: option.splits)

lemma length_map_filter_crosses:
  "length (List.map_filter spec_insight frame) = length (filter (\<lambda>(i, r). crosses r) frame)"
proof (induction frame)
  case Nil
  show ?case by simp
next
  case (Cons ir frame)
  obtain i r where ir: "ir = (i, r)" by (cases ir)
  show ?case
    using Cons.IH spec_insight_crosses [of i r]
    by (auto simp: ir split: option.splits)
qed

lemma benchmarks_nonzero: "\<forall>(k, b) \<in> set benchmarks. b \<noteq> 0"
  by (simp add: benchmarks_def)

lemma index_map_benchmarks:
  "index_map benchmarks Margem_Bruta = Some (2/5)"
  "index_map benchmarks Margem_EBITDA = Some (1/5)"
  "index_map benchmarks Margem_Liquida = Some (1/10)"
  "index_map benchmarks ROE = Some (3/20)"
  "index_map benchmarks ROA = Some (7/100)"
  "index_map benchmarks Divida_PL = Some 1"
  "index_map benchmarks Liquidez_Corrente = Some (3/2)"
  using keys_distinct by (simp_all add: index_map_def benchmarks_def)

lemma format_1f_examples:
  "format_1f (25/2) = ''12.5''" "format_1f 25 = ''25.0''" "format_1f 20 = ''20.0''"
  "format_1f (100/7) = ''14.3''" "format_1f (100/9) = ''11.1''"
  by code_simp+

section \<open>Rounding is monotone\<close>

declare log2_ge1.simps [simp del] log2_lt1.simps [simp del]

lemma log2_ge1_spec:
  "1 \<le> x \<Longrightarrow> 2 ^ log2_ge1 x \<le> x \<and> x < 2 ^ Suc (log2_ge1 x)"
proof (induction x rule: log2_ge1.induct)
  case (1 x)
  show ?case
  proof (cases "x < 2")
    case True
    with "1.prems" show ?thesis by (simp add: log2_ge1.simps [of x])
  next
    case False
    then have "1 \<le> x / 2" by simp
    with "1.IH" False have "2 ^ log2_ge1 (x / 2) \<le> x / 2 \<and> x / 2 < 2 ^ Suc (log2_ge1 (x / 2))"
      by simp
    with False show ?thesis by (simp add: log2_ge1.simps [of x])
  qed
qed

lemma log2_lt1_spec:
  "0 < x \<Longrightarrow> x < 1 \<Longrightarrow> 1 \<le> 2 ^ log2_lt1 x * x \<and> 2 ^ log2_lt1 x * x < 2"
proof (induction x rule: log2_lt1.induct)
  case (1 x)
  show ?case
  proof (cases "1 \<le> 2 * x")
    case True
    then have "log2_lt1 (2 * x) = 0" by (simp add: log2_lt1.simps [of "2 * x"])
    with "1.prems" True show ?thesis by (simp add: log2_lt1.simps [of x])
  next
    case False
    with "1.IH" "1.prems"
    have "1 \<le> 2 ^ log2_lt1 (2 * x) * (2 * x) \<and> 2 ^ log2_lt1 (2 * x) * (2 * x) < 2"
      by simp
    with "1.prems" show ?thesis by (simp add: log2_lt1.simps [of x] mult.assoc)
  qed
qed

lemma ilog2_spec:
  assumes "0 < x"
  shows "2 powi ilog2 x \<le> x" and "x < 2 powi (ilog2 x + 1)"
proof -
  show "2 powi ilog2 x \<le> x"
  proof (cases "1 \<le> x")
    case True
    then show ?thesis using log2_ge1_spec [of x] by (simp add: ilog2_def)
  next
    case False
    with assms log2_lt1_spec [of x] have "1 \<le> 2 ^ log2_lt1 x * x" by simp
    then show ?thesis using False
      by (simp add: ilog2_def power_int_minus field_simps)
  qed
  show "x < 2 powi (ilog2 x + 1)"
  proof (cases "1 \<le> x")
    case True
    then show ?thesis using log2_ge1_spec [of x]
      by (simp add: ilog2_def power_int_add)
  next
    case False
    with assms log2_lt1_spec [of x] have "2 ^ log2_lt1 x * x < 2" by simp
    then show ?thesis using False
      by (simp add: ilog2_def power_int_diff field_simps)
  qed
qed

lemma ilog2_mono:
  assumes "0 < x" and "x \<le> y"
  shows "ilog2 x \<le> ilog2 y"
proof (rule ccontr)
  assume "\<not> ilog2 x \<le> ilog2 y"
  then have "ilog2 y + 1 \<le> ilog2 x" by simp
  then have "(2::rat) powi (ilog2 y + 1) \<le> 2 powi ilog2 x"
    by (intro power_int_increasing) simp_all
  also have "\<dots> \<le> x" using assms(1) by (rule ilog2_spec)
  also have "\<dots> \<le> y" by fact
  also have "\<dots> < 2 powi (ilog2 y + 1)" using assms by (intro ilog2_spec) simp
  finally show False by simp
qed


lemma round_half_even_ge_floor: "\<lfloor>t\<rfloor> \<le> round_half_even t"
  by (simp add: round_half_even_def Let_def)

lemma round_half_even_le_floor: "round_half_even t \<le> \<lfloor>t\<rfloor> + 1"
  by (simp add: round_half_even_def Let_def)

lemma round_half_even_of_int [simp]: "round_half_even (of_int n) = n"
  by (simp add: round_half_even_def)

lemma round_half_even_numeral [simp]: "round_half_even (numeral k) = numeral k"
  using round_half_even_of_int [of "numeral k"] by simp

lemma round_half_even_mono:
  assumes "x \<le> y"
  shows "round_half_even x \<le> round_half_even y"
proof (cases "\<lfloor>x\<rfloor> = \<lfloor>y\<rfloor>")
  case True
  with assms show ?thesis
    by (auto simp: round_half_even_def Let_def)
next
  case False
  with floor_mono [OF assms] have "\<lfloor>x\<rfloor> + 1 \<le> \<lfloor>y\<rfloor>" by simp
  with round_half_even_le_floor [of x] round_half_even_ge_floor [of y]
  show ?thesis by linarith
qed

lemma two_powi_pos [simp]: "0 < (2::rat) powi e"
  by (simp add: zero_less_power_int)

lemma round_pos_nonneg:
  assumes "0 \<le> x"
  shows "0 \<le> round_pos x"
proof -
  define e where "e = max (ilog2 x - 52) (- 1074)"
  have "of_int 0 \<le> x / 2 powi e"
    using assms by (simp add: less_imp_le)
  then have "round_half_even (of_int 0) \<le> round_half_even (x / 2 powi e)"
    by (rule round_half_even_mono)
  then have "0 \<le> round_half_even (x / 2 powi e)"
    by (simp only: round_half_even_of_int)
  then have "0 \<le> of_int (round_half_even (x / 2 powi e)) * (2::rat) powi e"
    by (simp add: less_imp_le)
  then show ?thesis
    by (simp add: round_pos_def Let_def e_def)
qed

lemma round_pos_mono:
  assumes "0 < x" and "x \<le> y"
  shows "round_pos x \<le> round_pos y"
proof -
  define ex where "ex = max (ilog2 x - 52) (- 1074)"
  define ey where "ey = max (ilog2 y - 52) (- 1074)"
  have rx: "round_pos x = of_int (round_half_even (x / 2 powi ex)) * 2 powi ex"
    and ry: "round_pos y = of_int (round_half_even (y / 2 powi ey)) * 2 powi ey"
    by (simp_all add: round_pos_def ex_def ey_def Let_def)
  have le: "ex \<le> ey"
    using ilog2_mono [OF assms] by (simp add: ex_def ey_def)
  show ?thesis
  proof (cases "ex = ey")
    case True
    have "x / 2 powi ey \<le> y / 2 powi ey"
      using assms by (simp add: divide_right_mono less_imp_le)
    then have "round_half_even (x / 2 powi ey) \<le> round_half_even (y / 2 powi ey)"
      by (rule round_half_even_mono)
    then show ?thesis
      unfolding rx ry True by (simp add: mult_right_mono less_imp_le)
  next
    case False
    with le have lt: "ex + 1 \<le> ey" by simp
    then have ey: "ey = ilog2 y - 52" by (simp add: ey_def ex_def)
    have "x < 2 powi (ilog2 x + 1)" using assms(1) by (rule ilog2_spec)
    also have "\<dots> \<le> 2 powi (ex + 53)"
      by (intro power_int_increasing) (simp_all add: ex_def)
    also have "\<dots> = 2 powi ex * of_int (2 ^ 53)"
      by (simp add: power_int_add)
    finally have "x / 2 powi ex \<le> of_int (2 ^ 53)"
      by (simp add: field_simps)
    then have "round_half_even (x / 2 powi ex) \<le> round_half_even (of_int (2 ^ 53))"
      by (rule round_half_even_mono)
    then have "round_pos x \<le> of_int (2 ^ 53) * 2 powi ex"
      unfolding rx by (simp add: mult_right_mono less_imp_le)
    also have "\<dots> = 2 powi (ex + 53)"
      by (simp add: power_int_add)
    also have "\<dots> \<le> 2 powi (ey + 52)"
      using lt by (intro power_int_increasing) simp_all
    finally have a: "round_pos x \<le> 2 powi (ey + 52)" .
    have "0 < y" using assms by simp
    then have "2 powi ilog2 y \<le> y" by (rule ilog2_spec)
    then have "2 powi ey * of_int (2 ^ 52) \<le> y"
      by (simp add: ey power_int_diff)
    then have "of_int (2 ^ 52) \<le> y / 2 powi ey"
      by (simp add: field_simps)
    then have "round_half_even (of_int (2 ^ 52)) \<le> round_half_even (y / 2 powi ey)"
      by (rule round_half_even_mono)
    then have "of_int (2 ^ 52) * 2 powi ey \<le> round_pos y"
      unfolding ry by (simp add: mult_right_mono less_imp_le)
    moreover have "of_int (2 ^ 52) * (2::rat) powi ey = 2 powi (ey + 52)"
      by (simp add: power_int_add)
    ultimately show ?thesis using a by simp
  qed
qed

lemma round_double_mono:
  assumes "x \<le> y"
  shows "round_double x \<le> round_double y"
proof -
  consider "0 < x" | "x \<le> 0" "0 \<le> y" | "y < 0" by linarith
  then show ?thesis
  proof cases
    case 1
    with assms round_pos_mono [of x y] show ?thesis
      by (simp add: round_double_def)
  next
    case 2
    have "round_double x \<le> 0"
      using 2(1) round_pos_nonneg [of "- x"] by (simp add: round_double_def)
    moreover have "0 \<le> round_double y"
      using 2(2) round_pos_nonneg [of y] by (simp add: round_double_def)
    ultimately show ?thesis by simp
  next
    case 3
    with assms round_pos_mono [of "- y" "- x"] show ?thesis
      by (simp add: round_double_def)
  qed
qed

lemma round_double_1 [simp]: "round_double 1 = 1"
  by (simp add: round_double_def round_pos_def ilog2_def log2_ge1.simps [of 1])

section \<open>The rounded operations are monotone\<close>

text \<open>Rounding a given number is a computation.\<close>

lemma floor_divide_numeral_rat:
  "\<lfloor>numeral a / numeral b :: rat\<rfloor> = numeral a div numeral b"
  by (metis floor_divide_of_int_eq of_int_numeral)

lemmas round_double_eval =
  round_double_def round_pos_def ilog2_def log2_lt1.simps log2_ge1.simps
  round_half_even_def Let_def floor_divide_numeral_rat

lemma literal_values:
  "round_double (1/4) = 1/4"
  "round_double (1/5) = 3602879701896397 / 18014398509481984"
  "round_double (1/10) = 3602879701896397 / 36028797018963968"
  "round_double (3/20) = 5404319552844595 / 36028797018963968"
  "round_double (3/2) = 3/2"
  by (simp_all add: round_double_eval)

lemma fadd_mono: "a \<le> a' \<Longrightarrow> b \<le> b' \<Longrightarrow> fadd a b \<le> fadd a' b'"
  by (simp add: fadd_def round_double_mono add_mono)

lemma fsub_antimono: "a \<le> a' \<Longrightarrow> fsub c a' \<le> fsub c a"
  by (simp add: fsub_def round_double_mono)

lemma fmul_mono: "0 \<le> c \<Longrightarrow> a \<le> a' \<Longrightarrow> fmul c a \<le> fmul c a'"
  by (simp add: fmul_def round_double_mono mult_left_mono)

lemma fmul_mono_left: "0 \<le> c \<Longrightarrow> a \<le> a' \<Longrightarrow> fmul a c \<le> fmul a' c"
  by (simp add: fmul_def round_double_mono mult_right_mono)

lemma fdiv_mono: "0 < i \<Longrightarrow> v \<le> v' \<Longrightarrow> fdiv v i \<le> fdiv v' i"
  by (simp add: fdiv_def round_double_mono divide_right_mono)

lemma normalize_float_mono:
  assumes "0 < i" and "v \<le> v'"
  shows "normalize_float (Some v) i m \<le> normalize_float (Some v') i m"
  using fdiv_mono [OF assms] assms(1) by (simp add: normalize_float_def min_def)

lemma normalize_float_flat:
  assumes "0 < i" and "i \<le> v"
  shows "normalize_float (Some v) i m = 1"
proof -
  have "1 \<le> v / i" using assms by simp
  then have "round_double 1 \<le> round_double (v / i)" by (rule round_double_mono)
  then show ?thesis using assms(1) by (simp add: normalize_float_def fdiv_def min_def)
qed

section \<open>The rounded score as a function of five values\<close>

lemma score_float_values:
  assumes "getitem d Margem_EBITDA = Inr e" and "getitem d Margem_Liquida = Inr n"
    and "getitem d ROE = Inr r" and "getitem d Divida_PL = Inr q"
    and "getitem d Liquidez_Corrente = Inr c"
  shows "score_float d =
     Inr (weighted_float
            (normalize_float e (round_double (1/5)) (round_double (2/5)))
            (normalize_float n (round_double (1/10)) (round_double (1/5)))
            (normalize_float r (round_double (3/20)) (round_double (3/10)))
            (normalize_float q 1 3)
            (normalize_float c (round_double (3/2)) 3))"
  using assms by (simp add: score_float_def weighted_float_def)

lemma score_float_defined:
  assumes "score_float d = Inr s"
  obtains e n r q c where "getitem d Margem_EBITDA = Inr e"
    and "getitem d Margem_Liquida = Inr n" and "getitem d ROE = Inr r"
    and "getitem d Divida_PL = Inr q" and "getitem d Liquidez_Corrente = Inr c"
  using assms by (auto simp: score_float_def split: sum.splits)

lemma weighted_float_mono:
  assumes "a1 \<le> b1" and "a2 \<le> b2" and "a3 \<le> b3" and "b4 \<le> a4" and "a5 \<le> b5"
  shows "weighted_float a1 a2 a3 a4 a5 \<le> weighted_float b1 b2 b3 b4 b5"
  unfolding weighted_float_def
  by (intro fmul_mono_left fadd_mono fmul_mono fsub_antimono assms)
    (simp_all add: literal_values)

lemma score_float_set_ebitda:
  assumes "getitem d Margem_Liquida = Inr n" and "getitem d ROE = Inr r"
    and "getitem d Divida_PL = Inr q" and "getitem d Liquidez_Corrente = Inr c"
  shows "score_float (dict_set d Margem_EBITDA x) =
     Inr (weighted_float
            (normalize_float x (round_double (1/5)) (round_double (2/5)))
            (normalize_float n (round_double (1/10)) (round_double (1/5)))
            (normalize_float r (round_double (3/20)) (round_double (3/10)))
            (normalize_float q 1 3)
            (normalize_float c (round_double (3/2)) 3))"
  using assms keys_distinct by (intro score_float_values) (auto simp: getitem_dict_set)

lemma score_float_set_liquida:
  assumes "getitem d Margem_EBITDA = Inr e" and "getitem d ROE = Inr r"
    and "getitem d Divida_PL = Inr q" and "getitem d Liquidez_Corrente = Inr c"
  shows "score_float (dict_set d Margem_Liquida x) =
     Inr (weighted_float
            (normalize_float e (round_double (1/5)) (round_double (2/5)))
            (normalize_float x (round_double (1/10)) (round_double (1/5)))
            (normalize_float r (round_double (3/20)) (round_double (3/10)))
            (normalize_float q 1 3)
            (normalize_float c (round_double (3/2)) 3))"
  using assms keys_distinct by (intro score_float_values) (auto simp: getitem_dict_set)

lemma score_float_set_roe:
  assumes "getitem d Margem_EBITDA = Inr e" and "getitem d Margem_Liquida = Inr n"
    and "getitem d Divida_PL = Inr q" and "getitem d Liquidez_Corrente = Inr c"
  shows "score_float (dict_set d ROE x) =
     Inr (weighted_float
            (normalize_float e (round_double (1/5)) (round_double (2/5)))
            (normalize_float n (round_double (1/10)) (round_double (1/5)))
            (normalize_float x (round_double (3/20)) (round_double (3/10)))
            (normalize_float q 1 3)
            (normalize_float c (round_double (3/2)) 3))"
  using assms keys_distinct by (intro score_float_values) (auto simp: getitem_dict_set)

lemma score_float_set_divida:
  assumes "getitem d Margem_EBITDA = Inr e" and "getitem d Margem_Liquida = Inr n"
    and "getitem d ROE = Inr r" and "getitem d Liquidez_Corrente = Inr c"
  shows "score_float (dict_set d Divida_PL x) =
     Inr (weighted_float
            (normalize_float e (round_double (1/5)) (round_double (2/5)))
            (normalize_float n (round_double (1/10)) (round_double (1/5)))
            (normalize_float r (round_double (3/20)) (round_double (3/10)))
            (normalize_float x 1 3)
            (normalize_float c (round_double (3/2)) 3))"
  using assms keys_distinct by (intro score_float_values) (auto simp: getitem_dict_set)

lemma score_float_set_liquidez:
  assumes "getitem d Margem_EBITDA = Inr e" and "getitem d Margem_Liquida = Inr n"
    and "getitem d ROE = Inr r" and "getitem d Divida_PL = Inr q"
  shows "score_float (dict_set d Liquidez_Corrente x) =
     Inr (weighted_float
            (normalize_float e (round_double (1/5)) (round_double (2/5)))
            (normalize_float n (round_double (1/10)) (round_double (1/5)))
            (normalize_float r (round_double (3/20)) (round_double (3/10)))
            (normalize_float q 1 3)
            (normalize_float x (round_double (3/2)) 3))"
  using assms keys_distinct by (intro score_float_values) (auto simp: getitem_dict_set)

lemmas score_float_eval =
  score_float_def kpis_float_def normalize_float_def truthy_def fadd_def fsub_def fmul_def
  fdiv_def round_double_eval

lemma score_float_example_input: "score_float (kpis_float example_input) = Inr (165/2)"
  using keys_distinct by (simp add: score_float_eval example_input_def)

section \<open>The claims\<close>

text \<open>
  C1. For the dictionary of indicators built from any non-negative input, the five scored
  entries are present and the score is the value of the specification's formula at them:
  100 times the sum of 0.25 normalize(EbitdaMargin, 0.20), 0.20 normalize(NetMargin, 0.10),
  0.25 normalize(ROE, 0.15), 0.20 (1 - normalize(DebtToEquity, 1.0)) and
  0.10 normalize(CurrentRatio, 1.5).
\<close>

theorem score_is_spec_formula:
  assumes "nonneg f"
  shows "\<exists>e n r q c.
           getitem (kpis f) Margem_EBITDA = Inr e \<and>
           getitem (kpis f) Margem_Liquida = Inr n \<and>
           getitem (kpis f) ROE = Inr r \<and>
           getitem (kpis f) Divida_PL = Inr q \<and>
           getitem (kpis f) Liquidez_Corrente = Inr c \<and>
           score (kpis f) = Inr (spec_score e n r q c)"
proof -
  obtain e n r q c where g:
    "getitem (kpis f) Margem_EBITDA = Inr e" "getitem (kpis f) Margem_Liquida = Inr n"
    "getitem (kpis f) ROE = Inr r" "getitem (kpis f) Divida_PL = Inr q"
    "getitem (kpis f) Liquidez_Corrente = Inr c"
    using kpis_getitem by blast
  have "score (kpis f) = Inr (spec_score e n r q c)"
    by (simp add: score_values [OF g] normalize_kpi_spec spec_score_def algebra_simps)
  with g show ?thesis by blast
qed

theorem score_is_spec_formula_witness:
  "nonneg example_input \<and>
   score (kpis example_input) =
     Inr (spec_score (Some (1/4)) (Some (3/25)) (Some (3/20)) (Some (7/8)) (Some (5/3))) \<and>
   spec_score (Some (1/4)) (Some (3/25)) (Some (3/20)) (Some (7/8)) (Some (5/3)) = 165/2"
proof -
  have h: "nonneg example_input"
    by (simp add: nonneg_def example_input_def)
  have v: "spec_score (Some (1/4)) (Some (3/25)) (Some (3/20)) (Some (7/8)) (Some (5/3)) = 165/2"
    by (simp add: spec_score_def spec_normalize_def)
  from score_is_spec_formula [OF h] h v show ?thesis
    by (simp add: kpis_getitem example_input_def)
qed

text \<open>
  C2, as amended. An undefined indicator is normalized to 0. For the EBITDA margin, the
  net margin, ROE and the current ratio, putting undefined in place of a value removes
  exactly that indicator's weighted term from the score. The debt ratio enters as one
  minus its normalized value, so an undefined debt ratio earns the full 20 points:
  putting undefined in place of a value adds 20 times its normalized value to the score.
\<close>

theorem undefined_kpi_contribution:
  assumes "score d = Inr s"
    and "getitem d Margem_EBITDA = Inr e" and "getitem d Margem_Liquida = Inr n"
    and "getitem d ROE = Inr r" and "getitem d Divida_PL = Inr q"
    and "getitem d Liquidez_Corrente = Inr c"
  shows "normalize_kpi None ideal m = 0 \<and>
     score (dict_set d Margem_EBITDA None) =
       Inr (s - 100 * (1/4 * normalize_kpi e (1/5) (2/5))) \<and>
     score (dict_set d Margem_Liquida None) =
       Inr (s - 100 * (1/5 * normalize_kpi n (1/10) (1/5))) \<and>
     score (dict_set d ROE None) =
       Inr (s - 100 * (1/4 * normalize_kpi r (3/20) (3/10))) \<and>
     score (dict_set d Liquidez_Corrente None) =
       Inr (s - 100 * (1/10 * normalize_kpi c (3/2) 3)) \<and>
     score (dict_set d Divida_PL None) =
       Inr (s + 100 * (1/5 * normalize_kpi q 1 3))"
proof -
  note g = assms(2-6)
  have s: "s = (1/4 * normalize_kpi e (1/5) (2/5) + 1/5 * normalize_kpi n (1/10) (1/5) +
           1/4 * normalize_kpi r (3/20) (3/10) + 1/5 * (1 - normalize_kpi q 1 3) +
           1/10 * normalize_kpi c (3/2) 3) * 100"
    using assms(1) score_values [OF g] by simp
  have z: "normalize_kpi None i k = 0" for i k
    by (simp add: normalize_kpi_def)
  have "score (dict_set d Margem_EBITDA None) =
       Inr (s - 100 * (1/4 * normalize_kpi e (1/5) (2/5)))"
    unfolding s score_set_ebitda [OF g(2) g(3) g(4) g(5)] z by (simp add: algebra_simps)
  moreover have "score (dict_set d Margem_Liquida None) =
       Inr (s - 100 * (1/5 * normalize_kpi n (1/10) (1/5)))"
    unfolding s score_set_liquida [OF g(1) g(3) g(4) g(5)] z by (simp add: algebra_simps)
  moreover have "score (dict_set d ROE None) =
       Inr (s - 100 * (1/4 * normalize_kpi r (3/20) (3/10)))"
    unfolding s score_set_roe [OF g(1) g(2) g(4) g(5)] z by (simp add: algebra_simps)
  moreover have "score (dict_set d Liquidez_Corrente None) =
       Inr (s - 100 * (1/10 * normalize_kpi c (3/2) 3))"
    unfolding s score_set_liquidez [OF g(1) g(2) g(3) g(4)] z by (simp add: algebra_simps)
  moreover have "score (dict_set d Divida_PL None) =
       Inr (s + 100 * (1/5 * normalize_kpi q 1 3))"
    unfolding s score_set_divida [OF g(1) g(2) g(3) g(5)] z by (simp add: algebra_simps)
  ultimately show ?thesis
    using z by (intro conjI)
qed

theorem undefined_kpi_contribution_witness:
  "score (kpis example_input) = Inr (165/2) \<and>
   score (dict_set (kpis example_input) Margem_EBITDA None) = Inr (115/2) \<and>
   score (dict_set (kpis example_input) Margem_Liquida None) = Inr (125/2) \<and>
   score (dict_set (kpis example_input) ROE None) = Inr (115/2) \<and>
   score (dict_set (kpis example_input) Liquidez_Corrente None) = Inr (145/2) \<and>
   score (dict_set (kpis example_input) Divida_PL None) = Inr 100"
proof -
  note base = score_example_input
  from undefined_kpi_contribution [OF base kpis_getitem(2,3,4,6,7), of 1 3] base
  show ?thesis
    by (simp add: normalize_kpi_def example_input_def)
qed

text \<open>
  C2 as stated fails for the debt ratio. In the worked example the ratio is 7/8 and its
  term is worth 2.5 of the 82.5 points; were an undefined ratio to contribute nothing,
  the score without it would be 80. It is 100.
\<close>

theorem undefined_debt_ratio_counterexample:
  "score (kpis example_input) = Inr (165/2) \<and>
   getitem (kpis example_input) Divida_PL = Inr (Some (7/8)) \<and>
   100 * (1/5 * (1 - normalize_kpi (Some (7/8)) 1 3)) = 5/2 \<and>
   score (dict_set (kpis example_input) Divida_PL None) = Inr 100 \<and>
   score (dict_set (kpis example_input) Divida_PL None) \<noteq> Inr (165/2 - 5/2)"
proof -
  note base = score_example_input
  have "score (dict_set (kpis example_input) Divida_PL None) = Inr 100"
    by (simp add: score_set_divida [OF kpis_getitem(2,3,4,7)] normalize_kpi_def
        example_input_def)
  then show ?thesis
    using base by (simp add: kpis_getitem normalize_kpi_def example_input_def)
qed

text \<open>
  C3. With every field zero, each of the seven indicators is undefined and no deviation
  is computed. The column of values then holds no number, the table of lines 78 to 83
  raises, and the run ends with the error message alone: no score, no diagnosis and no
  insight is computed. The values the run does not reach are those of the claim: on this
  dictionary the expression of lines 114 to 120 is 20, below 40, and the loop of lines
  149 to 155 collects nothing.
\<close>

theorem all_zero_input_raises:
  "kpis zero_input =
     [(Margem_Bruta, None), (Margem_EBITDA, None), (Margem_Liquida, None),
      (ROE, None), (ROA, None), (Divida_PL, None), (Liquidez_Corrente, None)] \<and>
   df (kpis zero_input) =
     map (\<lambda>(k, b). (k, \<lparr>Valor = None, Benchmark = Some b, Desvio = None,
                          Valor_pct = None\<rparr>)) benchmarks \<and>
   st_dataframe (df (kpis zero_input)) = Inl TypeError \<and>
   analysis zero_input = Inl TypeError \<and>
   score (kpis zero_input) = Inr 20 \<and>
   comparisons (df (kpis zero_input)) = []"
proof -
  have k: "kpis zero_input =
      [(Margem_Bruta, None), (Margem_EBITDA, None), (Margem_Liquida, None),
       (ROE, None), (ROA, None), (Divida_PL, None), (Liquidez_Corrente, None)]"
    by (simp add: kpis_list zero_input_def)
  have s: "score (kpis zero_input) = Inr 20"
    by (simp add: score_values [OF kpis_getitem(2,3,4,6,7)] normalize_kpi_def
        zero_input_def)
  have d: "df (kpis zero_input) =
      map (\<lambda>(k, b). (k, \<lparr>Valor = None, Benchmark = Some b, Desvio = None,
                           Valor_pct = None\<rparr>)) benchmarks"
    unfolding k df_def
    by (simp add: make_row_def index_map_benchmarks col_sub_def col_div_def col_mul_def)
      (simp add: benchmarks_def)
  have c: "comparisons (df (kpis zero_input)) = []"
    unfolding d by (simp add: comparisons_def benchmarks_def loop_body_def)
  have t: "st_dataframe (df (kpis zero_input)) = Inl TypeError"
    unfolding d by (simp add: st_dataframe_def benchmarks_def)
  have "analysis zero_input = Inl TypeError"
    using t by (simp add: analysis_def)
  with k s d c t show ?thesis
    by (simp only: simp_thms)
qed

text \<open>
  C4. For every input whose ten fields are non-negative, the score is computed (no key
  is missing) and lies between 0 and 100, both included.
\<close>

theorem score_in_range:
  assumes "nonneg f"
  shows "\<exists>s. score (kpis f) = Inr s \<and> 0 \<le> s \<and> s \<le> 100"
proof -
  have pos: "0 \<le> receita f" "0 \<le> ebitda f" "0 \<le> lucro_liquido f"
    "0 \<le> patrimonio_liquido f" "0 \<le> divida_liquida f" "0 \<le> ativo_circ f"
    "0 \<le> passivo_circ f"
    using assms by (simp_all add: nonneg_def)
  show ?thesis
  proof (rule score_range_values)
    show "getitem (kpis f) Margem_EBITDA =
      Inr (if receita f \<noteq> 0 then Some (ebitda f / receita f) else None)"
      by (rule kpis_getitem)
    show "getitem (kpis f) Margem_Liquida =
      Inr (if receita f \<noteq> 0 then Some (lucro_liquido f / receita f) else None)"
      by (rule kpis_getitem)
    show "getitem (kpis f) ROE =
      Inr (if patrimonio_liquido f \<noteq> 0
           then Some (lucro_liquido f / patrimonio_liquido f) else None)"
      by (rule kpis_getitem)
    show "getitem (kpis f) Divida_PL =
      Inr (if patrimonio_liquido f \<noteq> 0
           then Some (divida_liquida f / patrimonio_liquido f) else None)"
      by (rule kpis_getitem)
    show "getitem (kpis f) Liquidez_Corrente =
      Inr (if ativo_circ f \<noteq> 0 \<and> passivo_circ f \<noteq> 0
           then Some (ativo_circ f / passivo_circ f) else None)"
      by (rule kpis_getitem)
  qed (use pos in \<open>auto split: if_splits\<close>)
qed

theorem score_in_range_witness:
  "nonneg example_input \<and> score (kpis example_input) = Inr (165/2) \<and>
   (0::rat) \<le> 165/2 \<and> (165/2::rat) \<le> 100"
proof -
  have h: "nonneg example_input"
    by (simp add: nonneg_def example_input_def)
  from score_in_range [OF h] h score_example_input show ?thesis
    by simp
qed

text \<open>
  C5. The chain of thresholds puts every score in exactly one of four bands, the first
  test that succeeds deciding: the first pair of texts exactly for a score of at least
  80, the second exactly from 60 up to but not including 80, the third exactly from 40 up
  to but not including 60, the fourth exactly below 40. In particular 80 is in the first
  band, 60 in the second and 40 in the third.
\<close>

theorem diagnosis_bands:
  "(diagnosis s = (diagnosis_excelente, recommendation_excelente)) = (80 \<le> s) \<and>
   (diagnosis s = (diagnosis_boa, recommendation_boa)) = (60 \<le> s \<and> s < 80) \<and>
   (diagnosis s = (diagnosis_moderada, recommendation_moderada)) = (40 \<le> s \<and> s < 60) \<and>
   (diagnosis s = (diagnosis_fraca, recommendation_fraca)) = (s < 40) \<and>
   diagnosis 80 = (diagnosis_excelente, recommendation_excelente) \<and>
   diagnosis 60 = (diagnosis_boa, recommendation_boa) \<and>
   diagnosis 40 = (diagnosis_moderada, recommendation_moderada)"
  using diagnosis_texts_distinct by (auto simp: diagnosis_def)

theorem diagnosis_bands_witness:
  "diagnosis (7999/100) = (diagnosis_boa, recommendation_boa) \<and>
   diagnosis (165/2) = (diagnosis_excelente, recommendation_excelente) \<and>
   diagnosis 50 = (diagnosis_moderada, recommendation_moderada) \<and>
   diagnosis 20 = (diagnosis_fraca, recommendation_fraca)"
  using diagnosis_bands [of "7999/100"] diagnosis_bands [of "165/2"]
    diagnosis_bands [of 50] diagnosis_bands [of 20]
  by simp

text \<open>
  C6. The loop over the rows collects, in the order of the rows, one bullet for each row
  whose deviation is defined and strictly above 10 (the name, the words for above the
  benchmark, a plus sign and the number to one decimal) or strictly below -10 (the name,
  the words for below the benchmark, and the number with its minus sign), and nothing for
  any other row. A row whose deviation is exactly 10 or exactly -10 adds nothing,
  wherever it stands. When no row crosses a threshold the insight text is the fallback
  message alone.
\<close>

theorem comparisons_strict_thresholds:
  "comparisons frame = List.map_filter spec_insight frame \<and>
   length (comparisons frame) = length (filter (\<lambda>(i, r). crosses r) frame) \<and>
   comparisons (xs @ (i, r\<lparr>Desvio := Some 10\<rparr>) # ys) = comparisons (xs @ ys) \<and>
   comparisons (xs @ (i, r\<lparr>Desvio := Some (- 10)\<rparr>) # ys) = comparisons (xs @ ys) \<and>
   (filter (\<lambda>(i, r). crosses r) frame = [] \<longrightarrow>
      insights (comparisons frame) = fallback_message)"
proof -
  have skip: "spec_insight (i, r\<lparr>Desvio := Some 10\<rparr>) = None"
    "spec_insight (i, r\<lparr>Desvio := Some (- 10)\<rparr>) = None"
    by (simp_all add: spec_insight_def)
  have len: "length (comparisons frame) = length (filter (\<lambda>(i, r). crosses r) frame)"
    by (simp add: comparisons_spec length_map_filter_crosses)
  have "comparisons (xs @ (i, r\<lparr>Desvio := Some 10\<rparr>) # ys) = comparisons (xs @ ys)"
    by (simp add: comparisons_spec map_filter_append skip)
  moreover
  have "comparisons (xs @ (i, r\<lparr>Desvio := Some (- 10)\<rparr>) # ys) = comparisons (xs @ ys)"
    by (simp add: comparisons_spec map_filter_append skip)
  moreover have "insights (comparisons frame) = fallback_message"
    if "filter (\<lambda>(i, r). crosses r) frame = []"
  proof -
    from that len have "comparisons frame = []" by simp
    then show ?thesis by (simp add: insights_def)
  qed
  ultimately show ?thesis
    using len by (simp add: comparisons_spec)
qed

theorem comparisons_strict_thresholds_witness:
  "comparisons (df (kpis example_input)) =
     [Margem_Bruta @ '' acima do benchmark (+12.5%)'',
      Margem_EBITDA @ '' acima do benchmark (+25.0%)'',
      Margem_Liquida @ '' acima do benchmark (+20.0%)'',
      ROA @ '' abaixo do benchmark (-14.3%)'',
      Divida_PL @ '' abaixo do benchmark (-12.5%)'',
      Liquidez_Corrente @ '' acima do benchmark (+11.1%)''] \<and>
   filter (\<lambda>(i, r). crosses r) (df (kpis at_benchmark_input)) = [] \<and>
   insights (comparisons (df (kpis at_benchmark_input))) = fallback_message"
proof -
  have z: "filter (\<lambda>(i, r). crosses r) (df (kpis at_benchmark_input)) = []"
    by (simp add: kpis_list df_def make_row_def index_map_benchmarks col_sub_def
        col_div_def col_mul_def at_benchmark_input_def Let_def crosses_def)
  have e: "List.map_filter spec_insight (df (kpis example_input)) =
     [Margem_Bruta @ '' acima do benchmark (+12.5%)'',
      Margem_EBITDA @ '' acima do benchmark (+25.0%)'',
      Margem_Liquida @ '' acima do benchmark (+20.0%)'',
      ROA @ '' abaixo do benchmark (-14.3%)'',
      Divida_PL @ '' abaixo do benchmark (-12.5%)'',
      Liquidez_Corrente @ '' acima do benchmark (+11.1%)'']"
    by (simp add: kpis_list df_def make_row_def index_map_benchmarks col_sub_def
        col_div_def col_mul_def example_input_def Let_def spec_insight_def
        format_1f_examples)
  have "comparisons (df (kpis example_input)) =
      List.map_filter spec_insight (df (kpis example_input))"
    using comparisons_strict_thresholds [of "df (kpis example_input)"] by (rule conjunct1)
  with e have a: "comparisons (df (kpis example_input)) =
     [Margem_Bruta @ '' acima do benchmark (+12.5%)'',
      Margem_EBITDA @ '' acima do benchmark (+25.0%)'',
      Margem_Liquida @ '' acima do benchmark (+20.0%)'',
      ROA @ '' abaixo do benchmark (-14.3%)'',
      Divida_PL @ '' abaixo do benchmark (-12.5%)'',
      Liquidez_Corrente @ '' acima do benchmark (+11.1%)'']"
    by (simp only:)
  have b: "insights (comparisons (df (kpis at_benchmark_input))) = fallback_message"
    using comparisons_strict_thresholds [of "df (kpis at_benchmark_input)"] z by blast
  from a z b show ?thesis
    by (intro conjI)
qed

text \<open>
  C7. For a non-negative input, the three margins are defined exactly when the revenue is
  positive, and are then gross profit, EBITDA and net income over revenue; with revenue
  zero all three are undefined whatever the other fields hold. ROE and debt to equity are
  defined exactly when equity is positive, ROA exactly when total assets are positive,
  and the current ratio, current assets over current liabilities, exactly when both are
  positive.
\<close>

theorem kpis_defined_iff_denominator_positive:
  assumes "nonneg f"
  shows "getitem (kpis f) Margem_Bruta =
           Inr (if 0 < receita f then Some (lucro_bruto f / receita f) else None) \<and>
         getitem (kpis f) Margem_EBITDA =
           Inr (if 0 < receita f then Some (ebitda f / receita f) else None) \<and>
         getitem (kpis f) Margem_Liquida =
           Inr (if 0 < receita f then Some (lucro_liquido f / receita f) else None) \<and>
         getitem (kpis f) ROE =
           Inr (if 0 < patrimonio_liquido f
                then Some (lucro_liquido f / patrimonio_liquido f) else None) \<and>
         getitem (kpis f) ROA =
           Inr (if 0 < ativo_total f then Some (lucro_liquido f / ativo_total f) else None) \<and>
         getitem (kpis f) Divida_PL =
           Inr (if 0 < patrimonio_liquido f
                then Some (divida_liquida f / patrimonio_liquido f) else None) \<and>
         getitem (kpis f) Liquidez_Corrente =
           Inr (if 0 < ativo_circ f \<and> 0 < passivo_circ f
                then Some (ativo_circ f / passivo_circ f) else None)"
proof -
  have "receita f \<noteq> 0 \<longleftrightarrow> 0 < receita f"
    "patrimonio_liquido f \<noteq> 0 \<longleftrightarrow> 0 < patrimonio_liquido f"
    "ativo_total f \<noteq> 0 \<longleftrightarrow> 0 < ativo_total f"
    "ativo_circ f \<noteq> 0 \<longleftrightarrow> 0 < ativo_circ f"
    "passivo_circ f \<noteq> 0 \<longleftrightarrow> 0 < passivo_circ f"
    using assms by (auto simp: nonneg_def)
  then show ?thesis
    by (simp only: kpis_getitem simp_thms)
qed

theorem kpis_defined_iff_denominator_positive_witness:
  "nonneg example_input \<and>
   getitem (kpis example_input) Margem_Bruta = Inr (Some (9/20)) \<and>
   getitem (kpis example_input) Margem_EBITDA = Inr (Some (1/4)) \<and>
   getitem (kpis example_input) Margem_Liquida = Inr (Some (3/25)) \<and>
   getitem (kpis example_input) ROE = Inr (Some (3/20)) \<and>
   getitem (kpis example_input) ROA = Inr (Some (3/50)) \<and>
   getitem (kpis example_input) Divida_PL = Inr (Some (7/8)) \<and>
   getitem (kpis example_input) Liquidez_Corrente = Inr (Some (5/3)) \<and>
   nonneg (example_input\<lparr>receita := 0\<rparr>) \<and>
   getitem (kpis (example_input\<lparr>receita := 0\<rparr>)) Margem_Bruta = Inr None \<and>
   getitem (kpis (example_input\<lparr>receita := 0\<rparr>)) Margem_EBITDA = Inr None \<and>
   getitem (kpis (example_input\<lparr>receita := 0\<rparr>)) Margem_Liquida = Inr None"
proof -
  have h: "nonneg example_input" "nonneg (example_input\<lparr>receita := 0\<rparr>)"
    by (simp_all add: nonneg_def example_input_def)
  from kpis_defined_iff_denominator_positive [OF h(1)]
    kpis_defined_iff_denominator_positive [OF h(2)] h
  show ?thesis
    by (simp add: example_input_def)
qed

text \<open>
  C8, as amended. Take a dictionary on which the score is computed, every operation
  rounded as the machine rounds it, and change one scored indicator, the others held
  fixed. In the EBITDA margin, the net margin, ROE and the current ratio the score never
  decreases when the value grows, and it is constant once the value has reached the
  ideal of the script (the doubles 0.2, 0.1, 0.15 and 1.5). In the debt ratio it never
  increases, and it is constant from 1.0 on. Nothing is said of a strict increase below
  the ideal.
\<close>

theorem score_float_monotone:
  assumes "score_float d = Inr s"
  shows
    "(v \<le> v' \<longrightarrow>
        score_le (score_float (dict_set d Margem_EBITDA (Some v)))
                 (score_float (dict_set d Margem_EBITDA (Some v')))) \<and>
     (round_double (1/5) \<le> v \<and> round_double (1/5) \<le> v' \<longrightarrow>
        score_float (dict_set d Margem_EBITDA (Some v)) =
        score_float (dict_set d Margem_EBITDA (Some v'))) \<and>
     (v \<le> v' \<longrightarrow>
        score_le (score_float (dict_set d Margem_Liquida (Some v)))
                 (score_float (dict_set d Margem_Liquida (Some v')))) \<and>
     (round_double (1/10) \<le> v \<and> round_double (1/10) \<le> v' \<longrightarrow>
        score_float (dict_set d Margem_Liquida (Some v)) =
        score_float (dict_set d Margem_Liquida (Some v'))) \<and>
     (v \<le> v' \<longrightarrow>
        score_le (score_float (dict_set d ROE (Some v)))
                 (score_float (dict_set d ROE (Some v')))) \<and>
     (round_double (3/20) \<le> v \<and> round_double (3/20) \<le> v' \<longrightarrow>
        score_float (dict_set d ROE (Some v)) =
        score_float (dict_set d ROE (Some v'))) \<and>
     (v \<le> v' \<longrightarrow>
        score_le (score_float (dict_set d Liquidez_Corrente (Some v)))
                 (score_float (dict_set d Liquidez_Corrente (Some v')))) \<and>
     (round_double (3/2) \<le> v \<and> round_double (3/2) \<le> v' \<longrightarrow>
        score_float (dict_set d Liquidez_Corrente (Some v)) =
        score_float (dict_set d Liquidez_Corrente (Some v'))) \<and>
     (v \<le> v' \<longrightarrow>
        score_le (score_float (dict_set d Divida_PL (Some v')))
                 (score_float (dict_set d Divida_PL (Some v)))) \<and>
     (1 \<le> v \<and> 1 \<le> v' \<longrightarrow>
        score_float (dict_set d Divida_PL (Some v)) =
        score_float (dict_set d Divida_PL (Some v')))"
proof -
  from assms obtain e n r q c where g:
    "getitem d Margem_EBITDA = Inr e" "getitem d Margem_Liquida = Inr n"
    "getitem d ROE = Inr r" "getitem d Divida_PL = Inr q"
    "getitem d Liquidez_Corrente = Inr c"
    by (rule score_float_defined)
  note s1 = score_float_set_ebitda [OF g(2) g(3) g(4) g(5)]
  note s2 = score_float_set_liquida [OF g(1) g(3) g(4) g(5)]
  note s3 = score_float_set_roe [OF g(1) g(2) g(4) g(5)]
  note s4 = score_float_set_divida [OF g(1) g(2) g(3) g(5)]
  note s5 = score_float_set_liquidez [OF g(1) g(2) g(3) g(4)]
  have mono: "normalize_float (Some v) i m \<le> normalize_float (Some v') i m"
    if "v \<le> v'" "0 < i" for i m
    using that by (simp add: normalize_float_mono)
  have flat: "normalize_float (Some v) i m = normalize_float (Some v') i m"
    if "i \<le> v" "i \<le> v'" "0 < i" for i m
    using that by (simp add: normalize_float_flat)
  have pos: "0 < round_double (1/5)" "0 < round_double (1/10)" "0 < round_double (3/20)"
    "0 < round_double (3/2)"
    by (simp_all add: literal_values)
  have "v \<le> v' \<longrightarrow>
          score_le (score_float (dict_set d Margem_EBITDA (Some v)))
                   (score_float (dict_set d Margem_EBITDA (Some v')))"
    using pos mono [of "round_double (1/5)" "round_double (2/5)"] by (auto simp: s1 score_le_def intro!: weighted_float_mono)
  moreover have "round_double (1/5) \<le> v \<and> round_double (1/5) \<le> v' \<longrightarrow>
          score_float (dict_set d Margem_EBITDA (Some v)) =
          score_float (dict_set d Margem_EBITDA (Some v'))"
    using pos flat [of "round_double (1/5)" "round_double (2/5)"] by (simp add: s1)
  moreover have "v \<le> v' \<longrightarrow>
          score_le (score_float (dict_set d Margem_Liquida (Some v)))
                   (score_float (dict_set d Margem_Liquida (Some v')))"
    using pos mono [of "round_double (1/10)" "round_double (1/5)"] by (auto simp: s2 score_le_def intro!: weighted_float_mono)
  moreover have "round_double (1/10) \<le> v \<and> round_double (1/10) \<le> v' \<longrightarrow>
          score_float (dict_set d Margem_Liquida (Some v)) =
          score_float (dict_set d Margem_Liquida (Some v'))"
    using pos flat [of "round_double (1/10)" "round_double (1/5)"] by (simp add: s2)
  moreover have "v \<le> v' \<longrightarrow>
          score_le (score_float (dict_set d ROE (Some v)))
                   (score_float (dict_set d ROE (Some v')))"
    using pos mono [of "round_double (3/20)" "round_double (3/10)"] by (auto simp: s3 score_le_def intro!: weighted_float_mono)
  moreover have "round_double (3/20) \<le> v \<and> round_double (3/20) \<le> v' \<longrightarrow>
          score_float (dict_set d ROE (Some v)) =
          score_float (dict_set d ROE (Some v'))"
    using pos flat [of "round_double (3/20)" "round_double (3/10)"] by (simp add: s3)
  moreover have "v \<le> v' \<longrightarrow>
          score_le (score_float (dict_set d Liquidez_Corrente (Some v)))
                   (score_float (dict_set d Liquidez_Corrente (Some v')))"
    using pos mono [of "round_double (3/2)" 3] by (auto simp: s5 score_le_def intro!: weighted_float_mono)
  moreover have "round_double (3/2) \<le> v \<and> round_double (3/2) \<le> v' \<longrightarrow>
          score_float (dict_set d Liquidez_Corrente (Some v)) =
          score_float (dict_set d Liquidez_Corrente (Some v'))"
    using pos flat [of "round_double (3/2)" 3] by (simp add: s5)
  moreover have "v \<le> v' \<longrightarrow>
          score_le (score_float (dict_set d Divida_PL (Some v')))
                   (score_float (dict_set d Divida_PL (Some v)))"
    using pos mono [of 1 3] by (auto simp: s4 score_le_def intro!: weighted_float_mono)
  moreover have "1 \<le> v \<and> 1 \<le> v' \<longrightarrow>
          score_float (dict_set d Divida_PL (Some v)) =
          score_float (dict_set d Divida_PL (Some v'))"
    using pos flat [of 1 3] by (simp add: s4)
  ultimately show ?thesis
    by (intro conjI)
qed

theorem score_float_monotone_witness:
  "score_float (kpis_float example_input) = Inr (165/2) \<and>
   score_le (score_float (dict_set (kpis_float example_input) Margem_EBITDA (Some (1/20))))
            (score_float (dict_set (kpis_float example_input) Margem_EBITDA (Some (1/10)))) \<and>
   score_le (score_float (dict_set (kpis_float example_input) Margem_Liquida (Some (1/20))))
            (score_float (dict_set (kpis_float example_input) Margem_Liquida (Some (1/10)))) \<and>
   score_le (score_float (dict_set (kpis_float example_input) ROE (Some (1/20))))
            (score_float (dict_set (kpis_float example_input) ROE (Some (1/10)))) \<and>
   score_le (score_float (dict_set (kpis_float example_input) Liquidez_Corrente (Some (1/20))))
            (score_float (dict_set (kpis_float example_input) Liquidez_Corrente (Some (1/10)))) \<and>
   score_le (score_float (dict_set (kpis_float example_input) Divida_PL (Some (1/10))))
            (score_float (dict_set (kpis_float example_input) Divida_PL (Some (1/20)))) \<and>
   score_float (dict_set (kpis_float example_input) Margem_EBITDA (Some 2)) =
     score_float (dict_set (kpis_float example_input) Margem_EBITDA (Some 3)) \<and>
   score_float (dict_set (kpis_float example_input) Margem_Liquida (Some 2)) =
     score_float (dict_set (kpis_float example_input) Margem_Liquida (Some 3)) \<and>
   score_float (dict_set (kpis_float example_input) ROE (Some 2)) =
     score_float (dict_set (kpis_float example_input) ROE (Some 3)) \<and>
   score_float (dict_set (kpis_float example_input) Liquidez_Corrente (Some 2)) =
     score_float (dict_set (kpis_float example_input) Liquidez_Corrente (Some 3)) \<and>
   score_float (dict_set (kpis_float example_input) Divida_PL (Some 2)) =
     score_float (dict_set (kpis_float example_input) Divida_PL (Some 3))"
proof -
  note base = score_float_example_input
  from score_float_monotone [OF base, of "1/20" "1/10"]
    score_float_monotone [OF base, of 2 3] base
  show ?thesis
    by (simp add: literal_values)
qed

text \<open>
  C8 as stated fails in its strict part. The two inputs below differ in EBITDA alone, 1
  against 2 on a revenue of \<open>10\<^sup>1\<^sup>8\<close>; the second dictionary is the first with a larger
  EBITDA margin in place of the smaller, both far below the ideal. The product that
  carries the margin is lost when it is added to the next product, and the two scores
  are the same double, 57.50000000000001.
\<close>

theorem strict_increase_counterexample:
  "getitem (kpis_float large_revenue_input) Margem_EBITDA =
     Inr (Some (1298074214633707 / 1298074214633706907132624082305024)) \<and>
   kpis_float (large_revenue_input\<lparr>ebitda := 2\<rparr>) =
     dict_set (kpis_float large_revenue_input) Margem_EBITDA
       (Some (1298074214633707 / 649037107316853453566312041152512)) \<and>
   (1298074214633707 / 1298074214633706907132624082305024 :: rat) <
     1298074214633707 / 649037107316853453566312041152512 \<and>
   1298074214633707 / 649037107316853453566312041152512 \<le> round_double (1/5) \<and>
   score_float (kpis_float large_revenue_input) =
     Inr (8092405580431361 / 140737488355328) \<and>
   score_float (kpis_float (large_revenue_input\<lparr>ebitda := 2\<rparr>)) =
     Inr (8092405580431361 / 140737488355328) \<and>
   \<not> score_lt (score_float (kpis_float large_revenue_input))
               (score_float (kpis_float (large_revenue_input\<lparr>ebitda := 2\<rparr>)))"
proof -
  have a: "score_float (kpis_float large_revenue_input) =
      Inr (8092405580431361 / 140737488355328)"
    using keys_distinct by (simp add: score_float_eval large_revenue_input_def)
  have b: "score_float (kpis_float (large_revenue_input\<lparr>ebitda := 2\<rparr>)) =
      Inr (8092405580431361 / 140737488355328)"
    using keys_distinct by (simp add: score_float_eval large_revenue_input_def)
  have c: "getitem (kpis_float large_revenue_input) Margem_EBITDA =
      Inr (Some (1298074214633707 / 1298074214633706907132624082305024))"
    using keys_distinct
    by (simp add: kpis_float_def truthy_def fdiv_def round_double_eval
        large_revenue_input_def)
  have d: "kpis_float (large_revenue_input\<lparr>ebitda := 2\<rparr>) =
      dict_set (kpis_float large_revenue_input) Margem_EBITDA
        (Some (1298074214633707 / 649037107316853453566312041152512))"
    using keys_distinct
    by (simp add: kpis_float_def truthy_def fdiv_def round_double_eval
        large_revenue_input_def)
  have e: "(1298074214633707 / 1298074214633706907132624082305024 :: rat) <
      1298074214633707 / 649037107316853453566312041152512"
    "1298074214633707 / 649037107316853453566312041152512 \<le> round_double (1/5)"
    by (simp_all add: literal_values)
  have "\<not> score_lt (score_float (kpis_float large_revenue_input))
      (score_float (kpis_float (large_revenue_input\<lparr>ebitda := 2\<rparr>)))"
    unfolding a b by (simp add: score_lt_def)
  with a b c d e show ?thesis
    by (intro conjI)
qed

text \<open>
  C9. Two inputs that differ only in \<open>passivo_total\<close> (total liabilities) give the same
  result of the whole computation: the same indicators, the same data frame with its
  deviations, the same score, the same diagnosis and recommendation, the same insights.
\<close>

theorem passivo_total_has_no_effect:
  "analysis (f\<lparr>passivo_total := x\<rparr>) = analysis f"
  by (simp add: analysis_def kpis_def)

text \<open>
  C10. The result of \<open>normalize\<close> does not depend on its third argument: whatever two
  values are passed as \<open>max_val\<close>, the results are equal.
\<close>

theorem normalize_ignores_max_val:
  "normalize_kpi v ideal m1 = normalize_kpi v ideal m2"
  by (simp add: normalize_kpi_def)

end
